theory Spec2Isabelle
  imports Main
begin

section \<open>Strings\<close>

text \<open>
  JavaScript strings are modelled as \<^typ>\<open>string\<close>: a list of code units, here
  restricted to the range 0..255. The string methods the handlers call are
  \<open>startsWith\<close>, \<open>includes\<close> (here \<open>includes_str\<close>), \<open>trim\<close> and \<open>split\<close>.
\<close>

definition startsWith :: "string \<Rightarrow> string \<Rightarrow> bool" where
  "startsWith s p = (take (length p) s = p)"

fun includes_str :: "string \<Rightarrow> string \<Rightarrow> bool" where
  "includes_str [] p = (p = [])"
| "includes_str (c # cs) p = (if startsWith (c # cs) p then True else includes_str cs p)"

text \<open>
  \<open>String.prototype.trim\<close> removes white space and line terminators from both
  ends. In the range 0..255 these are TAB, LF, VT, FF, CR, SPACE and NBSP.
\<close>

definition isWhiteSpace :: "char \<Rightarrow> bool" where
  "isWhiteSpace c =
     (c = CHR 0x09 \<or> c = CHR 0x0A \<or> c = CHR 0x0B \<or> c = CHR 0x0C \<or> c = CHR 0x0D \<or>
      c = CHR 0x20 \<or> c = CHR 0xA0)"

definition trim :: "string \<Rightarrow> string" where
  "trim s = rev (dropWhile isWhiteSpace (rev (dropWhile isWhiteSpace s)))"

text \<open>\<open>s.split(sep)\<close> for a separator of one character; never the empty list.\<close>

fun splitOn :: "char \<Rightarrow> string \<Rightarrow> string list" where
  "splitOn sep [] = [[]]"
| "splitOn sep (c # cs) =
     (if c = sep then [] # splitOn sep cs
      else (case splitOn sep cs of
              [] \<Rightarrow> [[c]]
            | p # ps \<Rightarrow> (c # p) # ps))"

text \<open>\<open>xs[i]\<close> of a JavaScript array: \<open>undefined\<close> out of range.\<close>

definition at_index :: "'a list \<Rightarrow> nat \<Rightarrow> 'a option" where
  "at_index xs i = (if i < length xs then Some (xs ! i) else None)"

section \<open>Data\<close>

text \<open>A \<open>File\<close>: the handlers read its declared media type only.\<close>

record File =
  name :: string
  type :: string

text \<open>
  \<open>interface ImageFile { file: File; preview: string }\<close>. The preview is the object
  URL that \<open>URL.createObjectURL\<close> returned; the model keeps its serial number.
\<close>

record ImageFile =
  file' :: File
  preview :: nat

text \<open>A thrown value: an \<open>Error\<close> with its message, or anything else.\<close>

datatype thrown = Error string | NonError

text \<open>The request \<open>getLatexFromImage\<close> hands to \<open>ai.models.generateContent\<close>.\<close>

record Blob =
  data :: "string option"
  mimeType :: string

datatype Part = InlineData Blob | Text string

record GenerateContentParameters =
  model :: string
  contents :: "Part list"

text \<open>
  The remote capability: it rejects with a thrown value, or resolves with a response
  whose \<open>text\<close> is a string or \<open>undefined\<close>.
\<close>

type_synonym generateContent = "GenerateContentParameters \<Rightarrow> thrown + string option"

text \<open>
  The component's state (the five \<open>useState\<close> cells of \<open>App\<close>) together with what
  the handlers do to their surroundings: the number of object URLs created, the file
  readers started and not yet finished (each with the file its closure captured),
  the requests dispatched to the remote capability, and the rejections of the
  \<open>async\<close> callback that nothing handles.
\<close>

record state =
  imageFile :: "ImageFile option"
  latexCode :: string
  isLoading :: bool
  error :: string
  isDragging :: bool
  objectURLs :: nat
  readers :: "File list"
  requests :: "GenerateContentParameters list"
  unhandled :: "thrown list"

definition initial :: state where
  "initial = \<lparr>imageFile = None, latexCode = [], isLoading = False, error = [],
     isDragging = False, objectURLs = 0, readers = [], requests = [], unhandled = []\<rparr>"

text \<open>The paste event: its target element and the items of its clipboard data.\<close>

record HTMLElement =
  isContentEditable :: bool
  tagName :: string

text \<open>
  A clipboard item; its \<open>type\<close> is the field \<open>itemType\<close> here, and \<open>getAsFile\<close> is
  what the call \<open>getAsFile()\<close> returns (a file or \<open>null\<close>).
\<close>

record DataTransferItem =
  kind :: string
  itemType :: string
  getAsFile :: "File option"

record ClipboardEvent =
  target :: "HTMLElement option"
  items :: "DataTransferItem list option"

section \<open>Input acquisition\<close>

definition processFile :: "File option \<Rightarrow> state \<Rightarrow> state" where
  "processFile f s =
     (case f of
        None \<Rightarrow> s\<lparr>error := ''Please select or paste a valid image file.''\<rparr>
      | Some fl \<Rightarrow>
          if startsWith (type fl) ''image/''
          then s\<lparr>imageFile := Some \<lparr>file' = fl, preview = objectURLs s\<rparr>,
                 objectURLs := Suc (objectURLs s),
                 latexCode := [],
                 error := []\<rparr>
          else s\<lparr>error := ''Please select or paste a valid image file.''\<rparr>)"

definition editable :: "HTMLElement option \<Rightarrow> bool" where
  "editable t =
     (case t of
        None \<Rightarrow> False
      | Some el \<Rightarrow> isContentEditable el \<or> tagName el = ''INPUT'' \<or> tagName el = ''TEXTAREA'')"

definition imageItem :: "DataTransferItem \<Rightarrow> bool" where
  "imageItem it = (kind it = ''file'' \<and> startsWith (itemType it) ''image/'')"

text \<open>
  The \<open>for\<close> loop of \<open>handlePaste\<close>, from index \<open>i\<close>. The result is the new state
  and whether \<open>event.preventDefault()\<close> was called.
\<close>

function pasteLoop :: "DataTransferItem list \<Rightarrow> nat \<Rightarrow> state \<Rightarrow> state \<times> bool" where
  "pasteLoop its i s =
     (if i < length its
      then (if imageItem (its ! i)
            then (processFile (getAsFile (its ! i)) s, True)
            else pasteLoop its (Suc i) s)
      else (s, False))"
  by pat_completeness auto
termination
  by (relation "measure (\<lambda>(its, i, s). length its - i)") auto

declare pasteLoop.simps [simp del]

definition handlePaste :: "ClipboardEvent \<Rightarrow> state \<Rightarrow> state \<times> bool" where
  "handlePaste event s =
     (if editable (target event) then (s, False)
      else (case items event of
              None \<Rightarrow> (s, False)
            | Some its \<Rightarrow> pasteLoop its 0 s))"

definition handleFileChange :: "File list option \<Rightarrow> state \<Rightarrow> state" where
  "handleFileChange files s =
     processFile (case files of None \<Rightarrow> None | Some fs \<Rightarrow> at_index fs 0) s"

definition handleDragEnter :: "state \<Rightarrow> state" where
  "handleDragEnter s = s\<lparr>isDragging := True\<rparr>"

definition handleDragLeave :: "state \<Rightarrow> state" where
  "handleDragLeave s = s\<lparr>isDragging := False\<rparr>"

definition handleDrop :: "File list \<Rightarrow> state \<Rightarrow> state" where
  "handleDrop files s =
     (let s1 = s\<lparr>isDragging := False\<rparr>
      in if length files > 0 then handleFileChange (Some files) s1 else s1)"

definition clearImage :: "state \<Rightarrow> state" where
  "clearImage s = s\<lparr>imageFile := None, latexCode := [], error := []\<rparr>"

section \<open>Conversion\<close>

definition instruction :: string where
  "instruction = ''Extract the LaTeX code for the equation in this image. Only return the raw LaTeX code itself, without any surrounding text, explanations, or markdown formatting like ```latex ... ```.''"

text \<open>
  The \<open>try\<close> block of \<open>getLatexFromImage\<close>, given what the remote call did: the value
  returned, or the value thrown inside the block. Calling \<open>trim\<close> on an undefined
  \<open>response.text\<close> throws a \<open>TypeError\<close> (the message is V8's).
\<close>

definition tryBlock :: "thrown + string option \<Rightarrow> thrown + string" where
  "tryBlock response =
     (case response of
        Inl e \<Rightarrow> Inl e
      | Inr None \<Rightarrow> Inl (Error ''Cannot read properties of undefined (reading 'trim')'')
      | Inr (Some t) \<Rightarrow>
          (let latex = trim t
           in if latex = []
              then Inl (Error ''Gemini returned an empty response. The equation might not be clear in the image.'')
              else Inr latex))"

text \<open>The \<open>catch\<close> block: the error it throws for the error it caught.\<close>

definition catchBlock :: "thrown \<Rightarrow> thrown" where
  "catchBlock e =
     (if (case e of Error m \<Rightarrow> includes_str m ''API key not valid'' | NonError \<Rightarrow> False)
      then Error ''Invalid API Key. Please check your configuration.''
      else Error ''Failed to generate LaTeX from the image. Please try again with a clearer image.'')"

text \<open>
  \<open>getLatexFromImage\<close>: the request it dispatches, and how its promise settles
  (\<open>Inl\<close> rejected, \<open>Inr\<close> resolved). The first argument is \<open>undefined\<close> when the
  caller's \<open>split(',')[1]\<close> was.
\<close>

definition getLatexFromImage ::
  "generateContent \<Rightarrow> string option \<Rightarrow> string \<Rightarrow> GenerateContentParameters \<times> (thrown + string)" where
  "getLatexFromImage ai base64ImageData mime =
     (let imagePart = InlineData \<lparr>data = base64ImageData, mimeType = mime\<rparr>;
          textPart = Text instruction;
          request = \<lparr>model = ''gemini-2.5-flash'', contents = [imagePart, textPart]\<rparr>
      in (request,
          case tryBlock (ai request) of
            Inr latex \<Rightarrow> Inr latex
          | Inl e \<Rightarrow> Inl (catchBlock e)))"

text \<open>
  \<open>handleGenerateClick\<close> up to its return. \<open>readAsDataURL\<close> says whether setting up
  the reader throws synchronously (then the \<open>catch\<close> runs) or the read starts.
\<close>

definition handleGenerateClick :: "(File \<Rightarrow> thrown option) \<Rightarrow> state \<Rightarrow> state" where
  "handleGenerateClick readAsDataURL s =
     (case imageFile s of
        None \<Rightarrow> s\<lparr>error := ''Please upload an image first.''\<rparr>
      | Some img \<Rightarrow>
          (let s1 = s\<lparr>isLoading := True, error := [], latexCode := []\<rparr>
           in case readAsDataURL (file' img) of
                None \<Rightarrow> s1\<lparr>readers := readers s1 @ [file' img]\<rparr>
              | Some err \<Rightarrow>
                  s1\<lparr>error := (case err of Error m \<Rightarrow> m | NonError \<Rightarrow> ''An unknown error occurred.''),
                     isLoading := False\<rparr>))"

definition onerror :: "state \<Rightarrow> state" where
  "onerror s = s\<lparr>error := ''Failed to read the image file.'', isLoading := False\<rparr>"

text \<open>
  The \<open>async\<close> callback \<open>reader.onloadend\<close>, run to its end: \<open>result\<close> is
  \<open>reader.result\<close> (a data URL, or \<open>null\<close> after a failed read) and \<open>fl\<close> the file the
  closure captured. No \<open>try\<close> encloses the callback: what it throws, and a rejection of
  \<open>getLatexFromImage\<close>, is an unhandled rejection, and the statements after the
  \<open>await\<close> do not run.
\<close>

definition onloadend :: "generateContent \<Rightarrow> string option \<Rightarrow> File \<Rightarrow> state \<Rightarrow> state" where
  "onloadend ai result fl s =
     (case result of
        None \<Rightarrow> s\<lparr>unhandled := unhandled s @ [Error ''Cannot read properties of null (reading 'split')'']\<rparr>
      | Some url \<Rightarrow>
          (let base64String = at_index (splitOn (CHR '','') url) 1;
               mime = type fl;
               (request, settled) = getLatexFromImage ai base64String mime;
               s1 = s\<lparr>requests := requests s @ [request]\<rparr>
           in case settled of
                Inr latex \<Rightarrow> s1\<lparr>latexCode := latex, isLoading := False\<rparr>
              | Inl e \<Rightarrow> s1\<lparr>unhandled := unhandled s1 @ [e]\<rparr>))"

text \<open>
  The reader at position \<open>i\<close> finishes. A failed read fires \<open>error\<close> and then
  \<open>loadend\<close>, a successful one \<open>loadend\<close> only (no \<open>onload\<close> is installed).
\<close>

definition readerDone :: "nat \<Rightarrow> string option \<Rightarrow> generateContent \<Rightarrow> state \<Rightarrow> state" where
  "readerDone i result ai s =
     (case at_index (readers s) i of
        None \<Rightarrow> s
      | Some fl \<Rightarrow>
          (let s1 = s\<lparr>readers := take i (readers s) @ drop (Suc i) (readers s)\<rparr>;
               s2 = (case result of None \<Rightarrow> onerror s1 | Some url \<Rightarrow> s1)
           in onloadend ai result fl s2))"

section \<open>Events\<close>

text \<open>
  The events the component reacts to. A conversion is two events: the click, and the
  end of its read together with the remote call it makes; other events may come in
  between. The state cells change only when the remote call has settled, so placing
  the dispatch and the settlement in one event loses no state.
\<close>

datatype event =
    Paste ClipboardEvent
  | FileChange "File list option"
  | DragEnter
  | DragLeave
  | Drop "File list"
  | GenerateClick "thrown option"
  | ReaderDone nat "string option" "thrown + string option"
  | ClearImage

fun step :: "event \<Rightarrow> state \<Rightarrow> state" where
  "step (Paste ev) s = fst (handlePaste ev s)"
| "step (FileChange files) s = handleFileChange files s"
| "step DragEnter s = handleDragEnter s"
| "step DragLeave s = handleDragLeave s"
| "step (Drop files) s = handleDrop files s"
| "step (GenerateClick thrown) s = handleGenerateClick (\<lambda>fl. thrown) s"
| "step (ReaderDone i result response) s = readerDone i result (\<lambda>request. response) s"
| "step ClearImage s = clearImage s"

definition run :: "event list \<Rightarrow> state \<Rightarrow> state" where
  "run evs s = fold step evs s"

section \<open>What the page offers\<close>






section \<open>Example inputs\<close>

text \<open>
  A PNG image, a text file and the data URL a reader produces for the image; and the
  instruction as the specification words it, to compare with \<open>instruction\<close>.
\<close>

definition examplePng :: File where
  "examplePng = \<lparr>name = ''equation.png'', type = ''image/png''\<rparr>"

definition exampleText :: File where
  "exampleText = \<lparr>name = ''readme.md'', type = ''text/plain''\<rparr>"

definition exampleDataURL :: string where
  "exampleDataURL = ''data:image/png;base64,iVBORw0KGgo=''"

definition specInstruction :: string where
  "specInstruction = ''Extract the LaTeX code for the equation in this image. Only return the raw LaTeX code itself, without any surrounding text, explanations, or markdown formatting.''"

text \<open>A state with an image and its result shown.\<close>

definition exampleResolved :: state where
  "exampleResolved = initial\<lparr>imageFile := Some \<lparr>file' = examplePng, preview = 0\<rparr>, objectURLs := 1,
     latexCode := ''x^2''\<rparr>"

text \<open>The state after the image was picked and the generate button clicked.\<close>

definition inFlight :: state where
  "inFlight = run [FileChange (Some [examplePng]), GenerateClick None] initial"

text \<open>A whole conversion that succeeds, and the request it dispatches.\<close>

definition exampleConversion :: "event list" where
  "exampleConversion =
     [FileChange (Some [examplePng]), GenerateClick None,
      ReaderDone 0 (Some exampleDataURL) (Inr (Some ''x^2''))]"

definition exampleRequest :: GenerateContentParameters where
  "exampleRequest = \<lparr>model = ''gemini-2.5-flash'',
     contents = [InlineData \<lparr>data = Some ''iVBORw0KGgo='', mimeType = ''image/png''\<rparr>,
                 Text instruction]\<rparr>"



section \<open>The paste channel\<close>

text \<open>The loop from index \<open>i\<close> finds the first image item among the items from \<open>i\<close> on.\<close>

lemma pasteLoop_find:
  "pasteLoop its i s =
     (case find imageItem (drop i its) of
        None \<Rightarrow> (s, False)
      | Some it \<Rightarrow> (processFile (getAsFile it) s, True))"
proof (induction its i s rule: pasteLoop.induct)
  case (1 its i s)
  show ?case
  proof (cases "i < length its")
    case True
    then have d: "drop i its = its ! i # drop (Suc i) its"
      by (simp add: Cons_nth_drop_Suc)
    show ?thesis
      using True 1 by (subst pasteLoop.simps) (simp add: d)
  next
    case False
    then show ?thesis by (subst pasteLoop.simps) simp
  qed
qed

text \<open>
  C9. A paste whose target is editable (content-editable, an \<open>INPUT\<close> or a
  \<open>TEXTAREA\<close>) is ignored: the state is unchanged and the default action is not
  prevented. Otherwise the file of the first clipboard item of kind \<open>file\<close> whose type
  starts with \<open>image/\<close> goes to \<open>processFile\<close>, and when no item qualifies (or there
  is no clipboard data) the state is unchanged, so no error is set.
\<close>

theorem handlePaste_first_image_item:
  "handlePaste ev s =
     (if editable (target ev) then (s, False)
      else (case items ev of
              None \<Rightarrow> (s, False)
            | Some its \<Rightarrow>
                (case find imageItem its of
                   None \<Rightarrow> (s, False)
                 | Some it \<Rightarrow> (processFile (getAsFile it) s, True))))"
  by (simp add: handlePaste_def pasteLoop_find split: option.splits)

section \<open>Selecting and clearing\<close>

text \<open>
  C3. For a file whose declared type begins with \<open>image/\<close>, \<open>processFile\<close> makes it
  the selected image (in place of any earlier one) and empties the error message and
  the result text. For a file of any other type, and for no file at all, it leaves the
  selected image as it was and sets the error message
  \<open>Please select or paste a valid image file.\<close>
\<close>

theorem processFile_image_or_not:
  "(startsWith (type fl) ''image/'' \<longrightarrow>
      imageFile (processFile (Some fl) s) = Some \<lparr>file' = fl, preview = objectURLs s\<rparr> \<and>
      error (processFile (Some fl) s) = [] \<and>
      latexCode (processFile (Some fl) s) = []) \<and>
   (\<not> startsWith (type fl) ''image/'' \<longrightarrow>
      imageFile (processFile (Some fl) s) = imageFile s \<and>
      error (processFile (Some fl) s) = ''Please select or paste a valid image file.'') \<and>
   imageFile (processFile None s) = imageFile s \<and>
   error (processFile None s) = ''Please select or paste a valid image file.''"
  by (simp add: processFile_def)

theorem processFile_image_or_not_witness:
  "startsWith (type examplePng) ''image/'' \<and>
   imageFile (processFile (Some examplePng) exampleResolved) = Some \<lparr>file' = examplePng, preview = 1\<rparr> \<and>
   error (processFile (Some examplePng) exampleResolved) = [] \<and>
   latexCode (processFile (Some examplePng) exampleResolved) = [] \<and>
   \<not> startsWith (type exampleText) ''image/'' \<and>
   imageFile (processFile (Some exampleText) exampleResolved) = Some \<lparr>file' = examplePng, preview = 0\<rparr> \<and>
   error (processFile (Some exampleText) exampleResolved) = ''Please select or paste a valid image file.''"
proof -
  have a: "startsWith (type examplePng) ''image/''"
    by (simp add: startsWith_def examplePng_def)
  have b: "\<not> startsWith (type exampleText) ''image/''"
    by (simp add: startsWith_def exampleText_def)
  have c: "objectURLs exampleResolved = 1" "imageFile exampleResolved = Some \<lparr>file' = examplePng, preview = 0\<rparr>"
    by (simp_all add: exampleResolved_def)
  show ?thesis
    using a b c processFile_image_or_not [of examplePng exampleResolved]
      processFile_image_or_not [of exampleText exampleResolved]
    by simp
qed

text \<open>
  C8. \<open>clearImage\<close> is idempotent, and after it there is no selected image, no result
  text and no error message; it does not touch the loading flag, so from a state that
  is not in flight the result is the idle state.
\<close>

theorem clearImage_idempotent:
  "clearImage (clearImage s) = clearImage s \<and>
   imageFile (clearImage s) = None \<and>
   latexCode (clearImage s) = [] \<and>
   error (clearImage s) = [] \<and>
   isLoading (clearImage s) = isLoading s"
  by (simp add: clearImage_def)

text \<open>
  C4. With no image selected, \<open>handleGenerateClick\<close> sets the error message
  \<open>Please upload an image first.\<close> and changes nothing else: no reader is started and
  no request is dispatched to the remote capability.
\<close>

theorem handleGenerateClick_no_image:
  "imageFile s = None \<Longrightarrow>
     handleGenerateClick readAsDataURL s = s\<lparr>error := ''Please upload an image first.''\<rparr> \<and>
     requests (handleGenerateClick readAsDataURL s) = requests s \<and>
     readers (handleGenerateClick readAsDataURL s) = readers s"
  by (simp add: handleGenerateClick_def)

theorem handleGenerateClick_no_image_witness:
  "imageFile initial = None \<and>
   handleGenerateClick (\<lambda>fl. None) initial = initial\<lparr>error := ''Please upload an image first.''\<rparr> \<and>
   requests (handleGenerateClick (\<lambda>fl. None) initial) = [] \<and>
   readers (handleGenerateClick (\<lambda>fl. None) initial) = []"
proof -
  have h: "imageFile initial = None" by (simp add: initial_def)
  have r: "requests initial = []" "readers initial = []" by (simp_all add: initial_def)
  show ?thesis
    using h handleGenerateClick_no_image [OF h, of "\<lambda>fl. None"] r by simp
qed

text \<open>
  C10. A drop with no file only resets the \<open>isDragging\<close> flag: the selected image, the
  result text, the error message and the loading flag stay as they were. A change of
  the file input with no file (no list, or an empty one) goes through \<open>processFile\<close>
  and sets the error message \<open>Please select or paste a valid image file.\<close>
\<close>

theorem no_file_drop_and_picker:
  "handleDrop [] s = s\<lparr>isDragging := False\<rparr> \<and>
   handleFileChange None s = s\<lparr>error := ''Please select or paste a valid image file.''\<rparr> \<and>
   handleFileChange (Some []) s = s\<lparr>error := ''Please select or paste a valid image file.''\<rparr>"
  by (simp add: handleDrop_def handleFileChange_def processFile_def at_index_def)

text \<open>
  The drop that ends a drag finds \<open>isDragging\<close> set, and resets it: the state after a
  drop with no file is not the state before.
\<close>

theorem handleDrop_empty_counterexample:
  "handleDrop [] (initial\<lparr>isDragging := True\<rparr>) \<noteq> initial\<lparr>isDragging := True\<rparr>"
  by (simp add: handleDrop_def initial_def)

section \<open>The conversion outcome\<close>

text \<open>What \<open>trim\<close> returns is a prefix of the input without its leading white space.\<close>

lemma trim_prefix:
  "dropWhile isWhiteSpace s = trim s @ rev (takeWhile isWhiteSpace (rev (dropWhile isWhiteSpace s)))"
  unfolding trim_def by (metis rev_append rev_rev_ident takeWhile_dropWhile_id)

lemma trim_hd:
  assumes "trim s \<noteq> []"
  shows "\<not> isWhiteSpace (hd (trim s))"
proof -
  let ?ys = "dropWhile isWhiteSpace s"
  have "trim s = []" if e: "?ys = []"
    unfolding trim_def e by simp
  with assms have ne: "?ys \<noteq> []" by blast
  have "hd ?ys = hd (trim s)"
    using assms by (subst trim_prefix) simp
  moreover have "\<not> isWhiteSpace (hd ?ys)"
    using ne by (rule hd_dropWhile)
  ultimately show ?thesis by simp
qed

lemma trim_last:
  assumes "trim s \<noteq> []"
  shows "\<not> isWhiteSpace (last (trim s))"
proof -
  let ?zs = "dropWhile isWhiteSpace (rev (dropWhile isWhiteSpace s))"
  from assms have ne: "?zs \<noteq> []" by (simp add: trim_def)
  have "last (trim s) = hd ?zs"
    using ne by (simp add: trim_def last_rev)
  moreover have "\<not> isWhiteSpace (hd ?zs)"
    using ne by (rule hd_dropWhile)
  ultimately show ?thesis by simp
qed

lemma tryBlock_Inr:
  "tryBlock response = Inr latex \<Longrightarrow>
     latex \<noteq> [] \<and> (\<exists>t. response = Inr (Some t) \<and> latex = trim t)"
  by (auto simp: tryBlock_def Let_def split: sum.splits option.splits if_splits)

lemma catchBlock_cases:
  "catchBlock e = Error ''Invalid API Key. Please check your configuration.'' \<or>
   catchBlock e = Error ''Failed to generate LaTeX from the image. Please try again with a clearer image.''"
  by (simp add: catchBlock_def)

lemma example_trim:
  "trim ('' '' @ [CHR 0x5C] @ ''frac{1}{2} '') = [CHR 0x5C] @ ''frac{1}{2}''"
  by (simp add: trim_def isWhiteSpace_def)

text \<open>
  How the promise of \<open>getLatexFromImage\<close> settles. When it resolves, its text is the
  remote response trimmed, it is not empty and it neither starts nor ends with white
  space; when it rejects, the error carries one of two messages.
\<close>

lemma getLatexFromImage_settles:
  "(case snd (getLatexFromImage ai b m) of
      Inr latex \<Rightarrow>
        latex \<noteq> [] \<and> \<not> isWhiteSpace (hd latex) \<and> \<not> isWhiteSpace (last latex) \<and>
        (\<exists>t. ai (fst (getLatexFromImage ai b m)) = Inr (Some t) \<and> latex = trim t)
    | Inl e \<Rightarrow>
        e = Error ''Invalid API Key. Please check your configuration.'' \<or>
        e = Error ''Failed to generate LaTeX from the image. Please try again with a clearer image.'') \<and>
   snd (getLatexFromImage (\<lambda>request. Inr (Some ('' '' @ [CHR 0x5C] @ ''frac{1}{2} ''))) b m)
     = Inr ([CHR 0x5C] @ ''frac{1}{2}'')"
proof
  let ?req = "fst (getLatexFromImage ai b m)"
  have out: "snd (getLatexFromImage ai b m) =
      (case tryBlock (ai ?req) of Inr latex \<Rightarrow> Inr latex | Inl e \<Rightarrow> Inl (catchBlock e))"
    by (simp add: getLatexFromImage_def Let_def)
  show "case snd (getLatexFromImage ai b m) of
      Inr latex \<Rightarrow>
        latex \<noteq> [] \<and> \<not> isWhiteSpace (hd latex) \<and> \<not> isWhiteSpace (last latex) \<and>
        (\<exists>t. ai ?req = Inr (Some t) \<and> latex = trim t)
    | Inl e \<Rightarrow>
        e = Error ''Invalid API Key. Please check your configuration.'' \<or>
        e = Error ''Failed to generate LaTeX from the image. Please try again with a clearer image.''"
  proof (cases "tryBlock (ai ?req)")
    case (Inl e)
    then show ?thesis using catchBlock_cases [of e] by (simp add: out)
  next
    case (Inr latex)
    from tryBlock_Inr [OF Inr] obtain t where
      t: "latex \<noteq> []" "ai ?req = Inr (Some t)" "latex = trim t" by blast
    then show ?thesis using Inr trim_hd [of t] trim_last [of t] by (simp add: out)
  qed
next
  show "snd (getLatexFromImage (\<lambda>request. Inr (Some ('' '' @ [CHR 0x5C] @ ''frac{1}{2} ''))) b m)
     = Inr ([CHR 0x5C] @ ''frac{1}{2}'')"
    using example_trim by (simp add: getLatexFromImage_def tryBlock_def Let_def)
qed

text \<open>
  C1. When the remote call succeeds with a text that is empty after trimming, the error
  with the message \<open>Gemini returned an empty response...\<close> is thrown inside the \<open>try\<close>
  block and caught by the function's own \<open>catch\<close>, which replaces it: the promise
  rejects with the generic message \<open>Failed to generate LaTeX from the image...\<close>, not
  with the empty-response message.
\<close>

theorem empty_response_generic_message:
  "trim t = [] \<Longrightarrow>
     snd (getLatexFromImage (\<lambda>request. Inr (Some t)) b m) =
       Inl (Error ''Failed to generate LaTeX from the image. Please try again with a clearer image.'') \<and>
     snd (getLatexFromImage (\<lambda>request. Inr (Some t)) b m) \<noteq>
       Inl (Error ''Gemini returned an empty response. The equation might not be clear in the image.'')"
  by (simp add: getLatexFromImage_def tryBlock_def catchBlock_def Let_def startsWith_def)

theorem empty_response_generic_message_witness:
  "trim [] = [] \<and>
   snd (getLatexFromImage (\<lambda>request. Inr (Some [])) (Some ''iVBORw0KGgo='') ''image/png'') =
     Inl (Error ''Failed to generate LaTeX from the image. Please try again with a clearer image.'') \<and>
   snd (getLatexFromImage (\<lambda>request. Inr (Some [])) (Some ''iVBORw0KGgo='') ''image/png'') \<noteq>
     Inl (Error ''Gemini returned an empty response. The equation might not be clear in the image.'')"
proof -
  have h: "trim [] = []" by (simp add: trim_def)
  show ?thesis
    using h empty_response_generic_message [OF h, of "Some ''iVBORw0KGgo=''" "''image/png''"]
    by simp
qed

section \<open>The orchestration boundary\<close>

text \<open>
  C2. When the read succeeds and the body of \<open>getLatexFromImage\<close> throws (the remote
  call rejects, or the response has no usable text), the rejection leaves the
  \<open>async\<close> callback unhandled: the \<open>try\<close> of \<open>handleGenerateClick\<close> ended before the
  callback ran. The error message is not set and the loading flag is not cleared.
\<close>

theorem rejection_unhandled:
  "at_index (readers s) i = Some fl \<Longrightarrow> tryBlock response = Inl e \<Longrightarrow>
     error (readerDone i (Some url) (\<lambda>request. response) s) = error s \<and>
     isLoading (readerDone i (Some url) (\<lambda>request. response) s) = isLoading s \<and>
     unhandled (readerDone i (Some url) (\<lambda>request. response) s) = unhandled s @ [catchBlock e]"
  by (simp add: readerDone_def onloadend_def getLatexFromImage_def Let_def)

lemma inFlight_eq:
  "inFlight = initial\<lparr>imageFile := Some \<lparr>file' = examplePng, preview = 0\<rparr>, objectURLs := 1,
     isLoading := True, readers := [examplePng]\<rparr>"
  by (simp add: inFlight_def run_def handleFileChange_def at_index_def processFile_def
      startsWith_def examplePng_def handleGenerateClick_def initial_def)

theorem rejection_unhandled_witness:
  "at_index (readers inFlight) 0 = Some examplePng \<and>
   tryBlock (Inl (Error ''API key not valid. Please pass a valid API key.'')) =
     Inl (Error ''API key not valid. Please pass a valid API key.'') \<and>
   error (readerDone 0 (Some exampleDataURL)
     (\<lambda>request. Inl (Error ''API key not valid. Please pass a valid API key.'')) inFlight) = [] \<and>
   isLoading (readerDone 0 (Some exampleDataURL)
     (\<lambda>request. Inl (Error ''API key not valid. Please pass a valid API key.'')) inFlight) = True \<and>
   unhandled (readerDone 0 (Some exampleDataURL)
     (\<lambda>request. Inl (Error ''API key not valid. Please pass a valid API key.'')) inFlight) =
     [Error ''Invalid API Key. Please check your configuration.'']"
proof -
  have a: "at_index (readers inFlight) 0 = Some examplePng"
    by (simp add: inFlight_eq at_index_def)
  have b: "tryBlock (Inl (Error ''API key not valid. Please pass a valid API key.'')) =
     Inl (Error ''API key not valid. Please pass a valid API key.'')"
    by (simp add: tryBlock_def)
  have c: "catchBlock (Error ''API key not valid. Please pass a valid API key.'') =
      Error ''Invalid API Key. Please check your configuration.''"
    by (simp add: catchBlock_def startsWith_def)
  have d: "error inFlight = []" "isLoading inFlight = True" "unhandled inFlight = []"
    by (simp_all add: inFlight_eq initial_def)
  show ?thesis
    using a b c d rejection_unhandled [OF a b, of exampleDataURL] by simp
qed


text \<open>
  A failed read does reach the error state through \<open>onerror\<close>; the \<open>loadend\<close> event
  that follows still runs the callback, which throws on the \<open>null\<close> result.
\<close>

lemma read_failure:
  "at_index (readers s) i = Some fl \<Longrightarrow>
     error (readerDone i None ai s) = ''Failed to read the image file.'' \<and>
     isLoading (readerDone i None ai s) = False \<and>
     unhandled (readerDone i None ai s) =
       unhandled s @ [Error ''Cannot read properties of null (reading 'split')'']"
  by (simp add: readerDone_def onloadend_def onerror_def Let_def)

text \<open>
  C7. A conversion of a selected image, from the click to the end of its reader with
  nothing in between. A failed read ends with the error message
  \<open>Failed to read the image file.\<close> A read that succeeds and a remote response whose
  trimmed text is not empty end with that trimmed text as the result, no error and the
  loading flag cleared. A read that succeeds and a remote call that rejects, or whose
  response has no usable text, end with neither a result nor an error message, and
  with the loading flag still set: the conversion has no outcome.
\<close>

theorem conversion_outcome:
  "imageFile s = Some img \<Longrightarrow>
     (let s' = run [GenerateClick None, ReaderDone (length (readers s)) result response] s
      in case result of
           None \<Rightarrow>
             error s' = ''Failed to read the image file.'' \<and> latexCode s' = [] \<and>
             isLoading s' = False
         | Some url \<Rightarrow>
             (case tryBlock response of
                Inr latex \<Rightarrow>
                  latexCode s' = latex \<and> latex \<noteq> [] \<and>
                  (\<exists>t. response = Inr (Some t) \<and> latex = trim t) \<and>
                  error s' = [] \<and> isLoading s' = False
              | Inl e \<Rightarrow>
                  latexCode s' = [] \<and> error s' = [] \<and> isLoading s' = True \<and>
                  unhandled s' = unhandled s @ [catchBlock e]))"
proof -
  assume img: "imageFile s = Some img"
  let ?s1 = "handleGenerateClick (\<lambda>fl. None) s"
  have s1: "?s1 = s\<lparr>isLoading := True, error := [], latexCode := [],
      readers := readers s @ [file' img]\<rparr>"
    using img by (simp add: handleGenerateClick_def Let_def)
  have at: "at_index (readers s @ [file' img]) (length (readers s)) = Some (file' img)"
    by (simp add: at_index_def)
  show ?thesis
  proof (cases result)
    case None
    then show ?thesis
      by (simp add: run_def s1 readerDone_def at onerror_def onloadend_def Let_def)
  next
    case (Some url)
    show ?thesis
    proof (cases "tryBlock response")
      case (Inl e)
      with Some show ?thesis
        by (simp add: run_def s1 readerDone_def at onloadend_def getLatexFromImage_def Let_def)
    next
      case (Inr latex)
      from tryBlock_Inr [OF Inr] Inr Some show ?thesis
        by (simp add: run_def s1 readerDone_def at onloadend_def getLatexFromImage_def Let_def)
    qed
  qed
qed

theorem conversion_outcome_witness:
  "imageFile exampleResolved = Some \<lparr>file' = examplePng, preview = 0\<rparr> \<and>
   latexCode (run [GenerateClick None,
       ReaderDone 0 (Some exampleDataURL) (Inl (Error ''Failed to fetch''))] exampleResolved) = [] \<and>
   error (run [GenerateClick None,
       ReaderDone 0 (Some exampleDataURL) (Inl (Error ''Failed to fetch''))] exampleResolved) = [] \<and>
   isLoading (run [GenerateClick None,
       ReaderDone 0 (Some exampleDataURL) (Inl (Error ''Failed to fetch''))] exampleResolved) = True \<and>
   latexCode (run [GenerateClick None,
       ReaderDone 0 (Some exampleDataURL) (Inr (Some ('' '' @ [CHR 0x5C] @ ''frac{1}{2} '')))]
       exampleResolved) = [CHR 0x5C] @ ''frac{1}{2}''"
proof -
  have h: "imageFile exampleResolved = Some \<lparr>file' = examplePng, preview = 0\<rparr>"
    by (simp add: exampleResolved_def)
  have r: "readers exampleResolved = []"
    by (simp add: exampleResolved_def initial_def)
  have a: "tryBlock (Inl (Error ''Failed to fetch'')) = Inl (Error ''Failed to fetch'')"
    by (simp add: tryBlock_def)
  have b: "tryBlock (Inr (Some ('' '' @ [CHR 0x5C] @ ''frac{1}{2} ''))) =
      Inr ([CHR 0x5C] @ ''frac{1}{2}'')"
    using example_trim by (simp add: tryBlock_def Let_def)
  from h a b conversion_outcome [OF h, of "Some exampleDataURL" "Inl (Error ''Failed to fetch'')"]
    conversion_outcome [OF h, of "Some exampleDataURL"
      "Inr (Some ('' '' @ [CHR 0x5C] @ ''frac{1}{2} ''))"]
  show ?thesis
    by (simp add: r Let_def)
qed

section \<open>The dispatched requests\<close>

lemma requests_processFile: "requests (processFile f s) = requests s"
  by (simp add: processFile_def split: option.splits)

lemma requests_handlePaste: "requests (fst (handlePaste ev s)) = requests s"
  by (simp add: handlePaste_def pasteLoop_find requests_processFile split: option.splits)

lemma requests_handleGenerateClick: "requests (handleGenerateClick r s) = requests s"
  by (simp add: handleGenerateClick_def Let_def split: option.splits)

lemma requests_readerDone:
  "requests (readerDone i result ai s) = requests s \<or>
   (\<exists>b m. requests (readerDone i result ai s) = requests s @ [fst (getLatexFromImage ai b m)])"
  by (auto simp: readerDone_def onloadend_def onerror_def Let_def case_prod_beta
      split: option.splits sum.splits)

lemma getLatexFromImage_request:
  "fst (getLatexFromImage ai b m) =
     \<lparr>model = ''gemini-2.5-flash'',
      contents = [InlineData \<lparr>data = b, mimeType = m\<rparr>, Text instruction]\<rparr>"
  by (simp add: getLatexFromImage_def Let_def)

lemma requests_step:
  assumes "r \<in> set (requests (step ev s))"
  shows "r \<in> set (requests s) \<or> (\<exists>bl. contents r = [InlineData bl, Text instruction])"
proof (cases ev)
  case (ReaderDone i result response)
  from requests_readerDone [of i result "\<lambda>request. response" s]
  show ?thesis
  proof
    assume "requests (readerDone i result (\<lambda>request. response) s) = requests s"
    with assms ReaderDone show ?thesis by simp
  next
    assume "\<exists>b m. requests (readerDone i result (\<lambda>request. response) s) =
        requests s @ [fst (getLatexFromImage (\<lambda>request. response) b m)]"
    then obtain b m where
      "requests (readerDone i result (\<lambda>request. response) s) =
        requests s @ [fst (getLatexFromImage (\<lambda>request. response) b m)]"
      by blast
    with assms ReaderDone show ?thesis
      by (auto simp: getLatexFromImage_request)
  qed
qed (use assms in \<open>simp_all add: requests_processFile requests_handlePaste
      requests_handleGenerateClick handleFileChange_def handleDrop_def Let_def
      handleDragEnter_def handleDragLeave_def clearImage_def split: if_splits\<close>)

lemma requests_run:
  "r \<in> set (requests (run evs s)) \<Longrightarrow>
     r \<in> set (requests s) \<or> (\<exists>bl. contents r = [InlineData bl, Text instruction])"
proof (induction evs arbitrary: s)
  case Nil
  then show ?case by (simp add: run_def)
next
  case (Cons ev evs)
  then have "r \<in> set (requests (run evs (step ev s)))"
    by (simp add: run_def)
  from Cons.IH [OF this] show ?case
    using requests_step [of r ev s] by blast
qed

text \<open>
  C6. Every request dispatched to the remote capability, in any run of the component
  from its initial state, consists of the image part and the text part with the
  instruction of the code, which ends \<open>... or markdown formatting like ```latex ... ```.\<close>
\<close>

theorem dispatched_instruction:
  "r \<in> set (requests (run evs initial)) \<Longrightarrow>
     (\<exists>bl. contents r = [InlineData bl, Text instruction])"
  using requests_run [of r evs initial] by (simp add: initial_def)

lemma exampleConversion_requests: "requests (run exampleConversion initial) = [exampleRequest]"
  by (simp add: exampleConversion_def run_def handleFileChange_def at_index_def processFile_def
      startsWith_def examplePng_def handleGenerateClick_def initial_def readerDone_def
      onloadend_def exampleDataURL_def getLatexFromImage_def exampleRequest_def
      tryBlock_def trim_def isWhiteSpace_def Let_def)

theorem dispatched_instruction_witness:
  "exampleRequest \<in> set (requests (run exampleConversion initial)) \<and>
   (\<exists>bl. contents exampleRequest = [InlineData bl, Text instruction])"
proof -
  have h: "exampleRequest \<in> set (requests (run exampleConversion initial))"
    by (simp add: exampleConversion_requests)
  from h dispatched_instruction [OF h] show ?thesis by simp
qed

text \<open>
  The instruction of a dispatched request is not the shorter string of the
  specification, which ends \<open>... or markdown formatting.\<close>
\<close>

theorem spec_instruction_counterexample:
  "map contents (requests (run exampleConversion initial)) =
     [[InlineData \<lparr>data = Some ''iVBORw0KGgo='', mimeType = ''image/png''\<rparr>, Text instruction]] \<and>
   instruction \<noteq> specInstruction"
  by (simp add: exampleConversion_requests exampleRequest_def instruction_def specInstruction_def)


section \<open>Error and result\<close>

















end
